theory Spec2Isabelle
  imports Complex_Main "HOL-Library.Multiset" "HOL-Library.Product_Lexorder"
begin

section \<open>New-site monthly volume projection of \<open>app.py\<close>\<close>

text \<open>
  The computational part of \<open>app.py\<close> is lines 172 to 186: the function \<open>monthly_new\<close>,
  the loop that fills \<open>calc\<close> under a \<open>try\<close>/\<open>except Exception\<close>, and the
  \<open>concat\<close>/\<open>groupby\<close>/\<open>sum\<close> that builds \<open>new_df\<close>.

  Conventions of the model:
  \<^item> Python's \<open>int\<close> is \<open>int\<close>. Python's \<open>float\<close> is idealised as \<open>real\<close>: products and
    quotients are exact, and there is no rounding, overflow, infinity or not-a-number.
  \<^item> A Python \<open>str\<close> is a \<open>string\<close> whose characters are code points below 256.
  \<^item> Every exception is a value of type \<open>error\<close>; a computation that may raise returns
    \<open>error + 'a\<close>, with \<open>Inl\<close> for the exception.
  \<^item> A data frame with the two columns of \<open>monthly_new\<close> is the list of its rows, each a
    pair of the time stamp and the volume.
\<close>

datatype error = ValueError | KeyError | DateParseError | OutOfBoundsDatetime

subsection \<open>Python built-ins: \<open>int(str)\<close>, \<open>str.split\<close>, \<open>str(int)\<close>\<close>

text \<open>
  \<open>int(s)\<close> for a string: surrounding white space is stripped, one sign is allowed, then
  decimal digits follow, with single underscores allowed between digits. Anything else
  raises \<open>ValueError\<close>. Below code point 256 the white space characters of Python are
  9 to 13, 28 to 32, 133 and 160, and the only decimal digits are \<open>0\<close> to \<open>9\<close>.
\<close>

definition py_isspace :: "char \<Rightarrow> bool" where
  "py_isspace c = (of_char c \<in> set [9, 10, 11, 12, 13, 28, 29, 30, 31, 32, 133, 160 :: nat])"

definition py_strip :: "string \<Rightarrow> string" where
  "py_strip s = rev (dropWhile py_isspace (rev (dropWhile py_isspace s)))"

definition is_digit :: "char \<Rightarrow> bool" where
  "is_digit c = (48 \<le> (of_char c :: nat) \<and> (of_char c :: nat) \<le> 57)"

definition digit_val :: "char \<Rightarrow> int" where
  "digit_val c = int (of_char c) - 48"

fun py_digits :: "int \<Rightarrow> string \<Rightarrow> error + int" where
  "py_digits acc [] = Inr acc"
| "py_digits acc [c] = (if is_digit c then Inr (10 * acc + digit_val c) else Inl ValueError)"
| "py_digits acc (c # d # ds) =
     (if c = CHR ''_'' then
        (if is_digit d then py_digits (10 * acc + digit_val d) ds else Inl ValueError)
      else if is_digit c then py_digits (10 * acc + digit_val c) (d # ds)
      else Inl ValueError)"

definition py_unsigned :: "string \<Rightarrow> error + int" where
  "py_unsigned s =
     (case s of
        [] \<Rightarrow> Inl ValueError
      | c # cs \<Rightarrow> if is_digit c then py_digits (digit_val c) cs else Inl ValueError)"

definition py_int_str :: "string \<Rightarrow> error + int" where
  "py_int_str s =
     (case py_strip s of
        [] \<Rightarrow> Inl ValueError
      | c # cs \<Rightarrow>
          if c = CHR ''-'' then
            (case py_unsigned cs of Inl e \<Rightarrow> Inl e | Inr n \<Rightarrow> Inr (- n))
          else if c = CHR ''+'' then py_unsigned cs
          else py_unsigned (c # cs))"

text \<open>\<open>s.split(sep)\<close> for a one-character separator: always at least one part.\<close>

fun py_split :: "char \<Rightarrow> string \<Rightarrow> string list" where
  "py_split sep [] = [[]]"
| "py_split sep (c # cs) =
     (if c = sep then [] # py_split sep cs
      else (case py_split sep cs of
              [] \<Rightarrow> [[c]]
            | p # ps \<Rightarrow> (c # p) # ps))"

text \<open>\<open>str(n)\<close> for an integer: its decimal digits, with a minus sign when negative.\<close>

fun nat_digits :: "nat \<Rightarrow> string" where
  "nat_digits n =
     (if n < 10 then [char_of (48 + n)]
      else nat_digits (n div 10) @ [char_of (48 + n mod 10)])"

definition py_str_int :: "int \<Rightarrow> string" where
  "py_str_int n = (if n < 0 then CHR ''-'' # nat_digits (nat (- n)) else nat_digits (nat n))"

declare nat_digits.simps [simp del]

subsection \<open>The library: monthly periods and time stamps\<close>

text \<open>
  \<open>pandas\<close> is not part of the repository. The model fixes what the library does where
  its behaviour is the same in every release, and takes the rest as a parameter:
  \<^item> \<open>pd.Period(f"{y}-{m}", freq="M")\<close>: when \<open>y\<close> prints as four digits and \<open>m\<close> is 1 to
    12 the text is that month of that year; any other text reaches the library's other
    date parsers, \<open>Period_other\<close>, which may raise or read it in some other way.
    A monthly period is its ordinal, the number of months since January 1970.
  \<^item> \<open>period + i\<close> adds \<open>i\<close> to the ordinal.
  \<^item> \<open>period.to_timestamp()\<close> is the first instant of the month, here the pair of year
    and month. From October 1677 to April 2262 it fits the nanosecond range of a time
    stamp; outside, the result depends on the release, \<open>to_timestamp_far\<close>.
\<close>

type_synonym timestamp = "int \<times> int"

record pandas =
  Period_other :: "int \<Rightarrow> int \<Rightarrow> error + int"
  to_timestamp_far :: "int \<Rightarrow> error + timestamp"

definition ordinal :: "int \<Rightarrow> int \<Rightarrow> int" where
  "ordinal y m = (y - 1970) * 12 + (m - 1)"

definition Period :: "pandas \<Rightarrow> int \<Rightarrow> int \<Rightarrow> error + int" where
  "Period L y m =
     (if 1000 \<le> y \<and> y \<le> 9999 \<and> 1 \<le> m \<and> m \<le> 12 then Inr (ordinal y m)
      else Period_other L y m)"

definition to_timestamp :: "pandas \<Rightarrow> int \<Rightarrow> error + timestamp" where
  "to_timestamp L ord =
     (if ordinal 1677 10 \<le> ord \<and> ord \<le> ordinal 2262 4
      then Inr (1970 + ord div 12, ord mod 12 + 1)
      else to_timestamp_far L ord)"

text \<open>A library that rejects every other text and every far time stamp.\<close>

definition pandas_strict :: pandas where
  "pandas_strict =
     \<lparr>Period_other = (\<lambda>y m. Inl DateParseError),
      to_timestamp_far = (\<lambda>ord. Inl OutOfBoundsDatetime)\<rparr>"

subsection \<open>\<open>monthly_new\<close> (lines 172 to 178)\<close>

text \<open>
  \<open>y, m = map(int, start.split("-"))\<close>: exactly two parts, each an integer, else
  \<open>ValueError\<close>.
\<close>

definition parse_start :: "string \<Rightarrow> error + int \<times> int" where
  "parse_start start =
     (case py_split (CHR ''-'') start of
        [a, b] \<Rightarrow>
          (case py_int_str a of
             Inl e \<Rightarrow> Inl e
           | Inr y \<Rightarrow> (case py_int_str b of Inl e \<Rightarrow> Inl e | Inr m \<Rightarrow> Inr (y, m)))
      | _ \<Rightarrow> Inl ValueError)"

type_synonym entry = "timestamp \<times> real"

text \<open>
  The \<open>for i, p in enumerate(ramp)\<close> loop, from index \<open>i\<close> on. The period is built anew
  in every round, so an empty ramp builds none.
\<close>

fun ramp_loop :: "pandas \<Rightarrow> int \<Rightarrow> real \<Rightarrow> int \<Rightarrow> int \<Rightarrow> nat \<Rightarrow> int list \<Rightarrow> error + entry list" where
  "ramp_loop L hh avg y m i [] = Inr []"
| "ramp_loop L hh avg y m i (p # ps) =
     (case Period L y m of
        Inl e \<Rightarrow> Inl e
      | Inr per \<Rightarrow>
          (case to_timestamp L (per + int i) of
             Inl e \<Rightarrow> Inl e
           | Inr ts \<Rightarrow>
               (case ramp_loop L hh avg y m (Suc i) ps of
                  Inl e \<Rightarrow> Inl e
                | Inr out \<Rightarrow> Inr ((ts, of_int hh * avg * (of_int p / 100)) # out))))"

definition monthly_new :: "pandas \<Rightarrow> int \<Rightarrow> string \<Rightarrow> real \<Rightarrow> int list \<Rightarrow> error + entry list" where
  "monthly_new L hh start avg ramp =
     (case parse_start start of
        Inl e \<Rightarrow> Inl e
      | Inr (y, m) \<Rightarrow> ramp_loop L hh avg y m 0 ramp)"

subsection \<open>The site table and \<open>calc\<close> (lines 179 to 184)\<close>

text \<open>
  A cell of the edited table holds an integer, a string or nothing (\<open>NaN\<close>/\<open>None\<close>).
  A row has the three columns of the template: the site's name, its number of
  households and its start month.
\<close>

datatype cell = NaN | IntVal int | StrVal string

record site_row =
  site_name :: cell
  units :: cell
  start_period :: cell

definition dropna :: "site_row list \<Rightarrow> site_row list" where
  "dropna rows = filter (\<lambda>r. site_name r \<noteq> NaN \<and> units r \<noteq> NaN \<and> start_period r \<noteq> NaN) rows"

fun py_int :: "cell \<Rightarrow> error + int" where
  "py_int NaN = Inl ValueError"
| "py_int (IntVal n) = Inr n"
| "py_int (StrVal s) = py_int_str s"

fun py_str :: "cell \<Rightarrow> string" where
  "py_str NaN = ''nan''"
| "py_str (IntVal n) = py_str_int n"
| "py_str (StrVal s) = s"

text \<open>The body of the \<open>try\<close>: the arguments are evaluated left to right.\<close>

definition try_site :: "pandas \<Rightarrow> real \<Rightarrow> int list \<Rightarrow> site_row \<Rightarrow> error + entry list" where
  "try_site L avg ramp r =
     (case py_int (units r) of
        Inl e \<Rightarrow> Inl e
      | Inr hh \<Rightarrow> monthly_new L hh (py_str (start_period r)) avg ramp)"

text \<open>The loop over the rows: \<open>except Exception: pass\<close> skips a row that raised.\<close>

fun calc_loop :: "pandas \<Rightarrow> real \<Rightarrow> int list \<Rightarrow> site_row list \<Rightarrow> entry list list" where
  "calc_loop L avg ramp [] = []"
| "calc_loop L avg ramp (r # rs) =
     (case try_site L avg ramp r of
        Inl e \<Rightarrow> calc_loop L avg ramp rs
      | Inr df \<Rightarrow> df # calc_loop L avg ramp rs)"

definition calc :: "pandas \<Rightarrow> real \<Rightarrow> int list \<Rightarrow> site_row list \<Rightarrow> entry list list" where
  "calc L avg ramp new_sites = calc_loop L avg ramp (dropna new_sites)"

subsection \<open>\<open>new_df\<close> (lines 185 and 186)\<close>

text \<open>
  \<open>pd.concat(calc).groupby(..., as_index=False)[...].sum()\<close>, grouped by the column
  of time stamps and summing the column of volumes: one row for each distinct time stamp, in
  ascending order of the time stamps, holding the sum of the volumes of the rows with
  that time stamp.
\<close>

definition groupby_sum :: "entry list \<Rightarrow> entry list" where
  "groupby_sum rows =
     map (\<lambda>k. (k, sum_list (map snd (filter (\<lambda>r. fst r = k) rows))))
       (sort (remdups (map fst rows)))"

text \<open>
  \<open>if calc:\<close> guards the aggregation, so no frame at all gives no \<open>new_df\<close> (\<open>None\<close>).
  A frame built from an empty list of rows has no columns; when all frames are such,
  \<open>groupby\<close> raises \<open>KeyError\<close>, outside any \<open>try\<close>.
\<close>

definition new_df :: "pandas \<Rightarrow> real \<Rightarrow> int list \<Rightarrow> site_row list \<Rightarrow> error + entry list option" where
  "new_df L avg ramp new_sites =
     (let c = calc L avg ramp new_sites in
      if c = [] then Inr None
      else if concat c = [] then Inl KeyError
      else Inr (Some (groupby_sum (concat c))))"

subsection \<open>The ramp parameter (line 160)\<close>

text \<open>
  \<open>ramp = [int(x) for x in str(...).split(",")]\<close>: a part that is no integer raises, and
  the page stops there.
\<close>

fun ints_of :: "string list \<Rightarrow> error + int list" where
  "ints_of [] = Inr []"
| "ints_of (x # xs) =
     (case py_int_str x of
        Inl e \<Rightarrow> Inl e
      | Inr n \<Rightarrow> (case ints_of xs of Inl e \<Rightarrow> Inl e | Inr ns \<Rightarrow> Inr (n # ns)))"

definition parse_ramp :: "string \<Rightarrow> error + int list" where
  "parse_ramp s = ints_of (py_split (CHR '','') s)"

subsection \<open>Notions of the specification\<close>




section \<open>Properties of \<open>monthly_new\<close>\<close>

subsection \<open>The ramp loop\<close>

lemma ramp_loop_length:
  "ramp_loop L hh avg y m i ramp = Inr out \<Longrightarrow> length out = length ramp"
  by (induction ramp arbitrary: i out) (auto split: sum.splits)

lemma ramp_loop_volume:
  "ramp_loop L hh avg y m i ramp = Inr out \<Longrightarrow> k < length ramp \<Longrightarrow>
   snd (out ! k) = of_int hh * avg * (of_int (ramp ! k) / 100)"
proof (induction ramp arbitrary: i out k)
  case Nil
  then show ?case by simp
next
  case (Cons p ps)
  then show ?case by (cases k) (auto split: sum.splits)
qed











subsection \<open>The function\<close>

lemma monthly_new_Inr:
  "monthly_new L hh start avg ramp = Inr out \<Longrightarrow>
   \<exists>y m. parse_start start = Inr (y, m) \<and> ramp_loop L hh avg y m 0 ramp = Inr out"
  by (auto simp: monthly_new_def split: sum.splits)

subsection \<open>Volumes\<close>

text \<open>
  Claim C1. Whenever \<open>monthly_new\<close> returns a frame, the volume of its entry at index \<open>i\<close>
  is the number of households times the average consumption times \<open>ramp[i] / 100\<close>.
  For 500 households, consumption 30 and the ramp 30, 60, 85, 100 from March 2026 the
  four entries are 4500, 9000, 12750 and 15000, for March to June 2026, whatever the
  library does outside its fixed range.
\<close>

theorem monthly_new_volume:
  "(monthly_new L hh start avg ramp = Inr out \<longrightarrow> i < length out \<longrightarrow>
      snd (out ! i) = of_int hh * avg * (of_int (ramp ! i) / 100)) \<and>
   monthly_new L 500 ''2026-03'' 30 [30, 60, 85, 100] =
     Inr [((2026, 3), 4500), ((2026, 4), 9000), ((2026, 5), 12750), ((2026, 6), 15000)]"
proof (intro conjI impI)
  assume out: "monthly_new L hh start avg ramp = Inr out" and i: "i < length out"
  from monthly_new_Inr [OF out] obtain y m where
    loop: "ramp_loop L hh avg y m 0 ramp = Inr out" by blast
  from i ramp_loop_length [OF loop] have "i < length ramp" by simp
  with loop show "snd (out ! i) = of_int hh * avg * (of_int (ramp ! i) / 100)"
    by (rule ramp_loop_volume)
next
  show "monthly_new L 500 ''2026-03'' 30 [30, 60, 85, 100] =
     Inr [((2026, 3), 4500), ((2026, 4), 9000), ((2026, 5), 12750), ((2026, 6), 15000)]"
    by (simp add: monthly_new_def parse_start_def py_int_str_def py_strip_def py_isspace_def
        py_unsigned_def is_digit_def digit_val_def Period_def to_timestamp_def ordinal_def)
qed

text \<open>An instance: 200 households from November 2025, consumption 25, ramp 50, 100.\<close>

theorem monthly_new_volume_witness:
  "monthly_new pandas_strict 200 ''2025-11'' 25 [50, 100] =
     Inr [((2025, 11), 2500), ((2025, 12), 5000)] \<and>
   (1::nat) < length [((2025::int, 11::int), 2500::real), ((2025, 12), 5000)] \<and>
   snd ([((2025::int, 11::int), 2500::real), ((2025, 12), 5000)] ! 1) =
     of_int 200 * 25 * (of_int ([50, 100] ! 1) / 100)"
proof -
  have e: "monthly_new pandas_strict 200 ''2025-11'' 25 [50, 100] =
     Inr [((2025, 11), 2500), ((2025, 12), 5000)]"
    by (simp add: monthly_new_def parse_start_def py_int_str_def py_strip_def py_isspace_def
        py_unsigned_def is_digit_def digit_val_def Period_def to_timestamp_def ordinal_def)
  from monthly_new_volume [of pandas_strict 200 "''2025-11''" 25 "[50, 100]"
      "[((2025, 11), 2500), ((2025, 12), 5000)]" 1] e
  show ?thesis by simp
qed

subsection \<open>Number of entries\<close>



subsection \<open>Periods\<close>



section \<open>Properties of \<open>calc\<close> and \<open>new_df\<close>\<close>

subsection \<open>Rows, frames and the aggregate\<close>

lemma try_site_length:
  "try_site L avg ramp r = Inr df \<Longrightarrow> length df = length ramp"
  by (auto simp: try_site_def split: sum.splits dest: monthly_new_Inr ramp_loop_length)

lemma calc_loop_concat:
  "calc_loop L avg ramp rs =
   concat (map (\<lambda>r. case try_site L avg ramp r of Inl e \<Rightarrow> [] | Inr df \<Rightarrow> [df]) rs)"
  by (induction rs) (auto split: sum.splits)

lemma calc_loop_append:
  "calc_loop L avg ramp (xs @ ys) = calc_loop L avg ramp xs @ calc_loop L avg ramp ys"
  by (simp add: calc_loop_concat)

lemma dropna_append: "dropna (xs @ ys) = dropna xs @ dropna ys"
  by (simp add: dropna_def)

lemma calc_append:
  "calc L avg ramp (xs @ ys) = calc L avg ramp xs @ calc L avg ramp ys"
  by (simp add: calc_def dropna_append calc_loop_append)

lemma calc_Cons:
  "calc L avg ramp (r # ys) = calc L avg ramp [r] @ calc L avg ramp ys"
  using calc_append [of L avg ramp "[r]" ys] by simp

lemma calc_single_failed:
  "try_site L avg ramp r = Inl e \<Longrightarrow> calc L avg ramp [r] = []"
  by (simp add: calc_def dropna_def)

lemma calc_single_missing:
  "site_name r = NaN \<or> units r = NaN \<or> start_period r = NaN \<Longrightarrow> calc L avg ramp [r] = []"
  by (auto simp: calc_def dropna_def)


lemma calc_frames_length:
  "df \<in> set (calc L avg ramp sites) \<Longrightarrow> length df = length ramp"
  by (auto simp: calc_def calc_loop_concat split: sum.splits dest: try_site_length [OF sym])

lemma new_df_cong:
  "calc L avg ramp sites' = calc L avg ramp sites \<Longrightarrow>
   new_df L avg ramp sites' = new_df L avg ramp sites"
  by (simp add: new_df_def)

lemma new_df_returns:
  assumes "ramp \<noteq> []"
  shows "\<exists>res. new_df L avg ramp sites = Inr res"
proof (cases "calc L avg ramp sites")
  case Nil
  then show ?thesis by (simp add: new_df_def)
next
  case (Cons df dfs)
  then have "df \<in> set (calc L avg ramp sites)" by simp
  then have "length df = length ramp" by (rule calc_frames_length)
  with assms have "df \<noteq> []" by auto
  with Cons show ?thesis by (simp add: new_df_def)
qed

lemma new_df_some:
  assumes "ramp \<noteq> []" and "calc L avg ramp sites \<noteq> []"
  shows "new_df L avg ramp sites = Inr (Some (groupby_sum (concat (calc L avg ramp sites))))"
proof -
  from assms(2) obtain df dfs where c: "calc L avg ramp sites = df # dfs"
    by (cases "calc L avg ramp sites") auto
  then have "df \<in> set (calc L avg ramp sites)" by simp
  then have "length df = length ramp" by (rule calc_frames_length)
  with assms(1) have "df \<noteq> []" by auto
  with c show ?thesis by (simp add: new_df_def)
qed

lemma calc_drop_row:
  assumes "calc L avg ramp [r] = []"
  shows "calc L avg ramp (xs @ r # ys) = calc L avg ramp xs @ calc L avg ramp ys"
    and "calc L avg ramp (xs @ r # ys) = calc L avg ramp (xs @ ys)"
    and "new_df L avg ramp (xs @ r # ys) = new_df L avg ramp (xs @ ys)"
proof -
  show 1: "calc L avg ramp (xs @ r # ys) = calc L avg ramp xs @ calc L avg ramp ys"
    using assms calc_append [of L avg ramp xs "r # ys"] calc_Cons [of L avg ramp r ys] by simp
  then show 2: "calc L avg ramp (xs @ r # ys) = calc L avg ramp (xs @ ys)"
    by (simp add: calc_append)
  then show "new_df L avg ramp (xs @ r # ys) = new_df L avg ramp (xs @ ys)"
    by (rule new_df_cong)
qed


lemma try_site_bad:
  "start_period r = StrVal ''bad'' \<Longrightarrow> \<exists>e. try_site L avg ramp r = Inl e"
proof -
  assume s: "start_period r = StrVal ''bad''"
  have "parse_start ''bad'' = Inl ValueError" by (simp add: parse_start_def)
  then have "monthly_new L hh ''bad'' avg ramp = Inl ValueError" for hh
    by (simp add: monthly_new_def)
  with s show ?thesis by (cases "py_int (units r)") (simp_all add: try_site_def)
qed

lemma try_site_abc:
  "units r = StrVal ''abc'' \<Longrightarrow> try_site L avg ramp r = Inl ValueError"
  by (simp add: try_site_def py_int_str_def py_strip_def py_isspace_def py_unsigned_def
      is_digit_def)

text \<open>
  The ramp of the page is never empty: \<open>split\<close> returns at least one part, and each
  part becomes one entry.
\<close>

lemma py_split_nonempty: "py_split sep s \<noteq> []"
  by (induction s) (auto split: list.splits)

lemma ints_of_length: "ints_of xs = Inr ns \<Longrightarrow> length ns = length xs"
  by (induction xs arbitrary: ns) (auto split: sum.splits)

lemma parse_ramp_nonempty: "parse_ramp s = Inr ramp \<Longrightarrow> ramp \<noteq> []"
  using ints_of_length [of "py_split (CHR '','') s" ramp] py_split_nonempty [of "CHR '',''" s]
  by (auto simp: parse_ramp_def)

subsection \<open>Grouping and order\<close>

lemma groupby_sum_keys:
  "map fst (groupby_sum rows) = sort (remdups (map fst rows))"
  by (simp add: groupby_sum_def comp_def)







lemma new_df_sorted_keys:
  assumes "new_df L avg ramp sites = Inr (Some df)"
  shows "sorted (map fst df) \<and> distinct (map fst df)"
proof -
  from assms have "df = groupby_sum (concat (calc L avg ramp sites))"
    by (auto simp: new_df_def Let_def split: if_splits)
  then show ?thesis by (simp add: groupby_sum_keys)
qed

subsection \<open>Evaluation of concrete rows\<close>

lemmas row_eval = monthly_new_def parse_start_def py_int_str_def py_strip_def py_isspace_def
  py_unsigned_def is_digit_def digit_val_def Period_def to_timestamp_def ordinal_def
  try_site_def calc_def dropna_def

section \<open>The claims about rows and the aggregate\<close>

text \<open>
  Claim C4. Each row that survives \<open>dropna\<close> contributes its own frame to \<open>calc\<close>, or
  nothing when its projection raised, whatever the other rows are. A row whose projection
  raises can be removed from the table without changing \<open>calc\<close> or \<open>new_df\<close>; a row with
  the start month \<open>bad\<close> or the household count \<open>abc\<close> is such a row. The loop itself
  cannot raise, and with a ramp of at least one entry \<open>new_df\<close> raises nothing either.
\<close>

theorem calc_skips_malformed:
  "calc L avg ramp sites =
     concat (map (\<lambda>r. case try_site L avg ramp r of Inl e \<Rightarrow> [] | Inr df \<Rightarrow> [df]) (dropna sites)) \<and>
   (try_site L avg ramp r = Inl e \<longrightarrow>
      calc L avg ramp (xs @ r # ys) = calc L avg ramp xs @ calc L avg ramp ys \<and>
      new_df L avg ramp (xs @ r # ys) = new_df L avg ramp (xs @ ys)) \<and>
   (start_period r = StrVal ''bad'' \<or> units r = StrVal ''abc'' \<longrightarrow>
      (\<exists>e'. try_site L avg ramp r = Inl e')) \<and>
   (ramp \<noteq> [] \<longrightarrow> (\<exists>res. new_df L avg ramp sites = Inr res))"
proof (intro conjI impI)
  show "calc L avg ramp sites =
     concat (map (\<lambda>r. case try_site L avg ramp r of Inl e \<Rightarrow> [] | Inr df \<Rightarrow> [df]) (dropna sites))"
    by (simp add: calc_def calc_loop_concat)
next
  assume "try_site L avg ramp r = Inl e"
  then have "calc L avg ramp [r] = []" by (rule calc_single_failed)
  then show "calc L avg ramp (xs @ r # ys) = calc L avg ramp xs @ calc L avg ramp ys"
    and "new_df L avg ramp (xs @ r # ys) = new_df L avg ramp (xs @ ys)"
    by (rule calc_drop_row)+
next
  assume "start_period r = StrVal ''bad'' \<or> units r = StrVal ''abc''"
  then show "\<exists>e'. try_site L avg ramp r = Inl e'"
    using try_site_bad [of r L avg ramp] try_site_abc [of r L avg ramp] by blast
next
  assume "ramp \<noteq> []"
  then show "\<exists>res. new_df L avg ramp sites = Inr res" by (rule new_df_returns)
qed

text \<open>
  An instance: a row with the count \<open>abc\<close> between two valid rows.
\<close>

theorem calc_skips_malformed_witness:
  "try_site pandas_strict 10 [50, 100]
     \<lparr>site_name = StrVal ''B'', units = StrVal ''abc'', start_period = StrVal ''2026-03''\<rparr>
     = Inl ValueError \<and>
   calc pandas_strict 10 [50, 100]
     [\<lparr>site_name = StrVal ''A'', units = IntVal 500, start_period = StrVal ''2026-03''\<rparr>,
      \<lparr>site_name = StrVal ''B'', units = StrVal ''abc'', start_period = StrVal ''2026-03''\<rparr>,
      \<lparr>site_name = StrVal ''D'', units = IntVal 100, start_period = StrVal ''2026-02''\<rparr>]
     = [[((2026, 3), 2500), ((2026, 4), 5000)], [((2026, 2), 500), ((2026, 3), 1000)]] \<and>
   new_df pandas_strict 10 [50, 100]
     [\<lparr>site_name = StrVal ''A'', units = IntVal 500, start_period = StrVal ''2026-03''\<rparr>,
      \<lparr>site_name = StrVal ''B'', units = StrVal ''abc'', start_period = StrVal ''2026-03''\<rparr>,
      \<lparr>site_name = StrVal ''D'', units = IntVal 100, start_period = StrVal ''2026-02''\<rparr>]
     = Inr (Some [((2026, 2), 500), ((2026, 3), 3500), ((2026, 4), 5000)])"
proof -
  let ?A = "\<lparr>site_name = StrVal ''A'', units = IntVal 500, start_period = StrVal ''2026-03''\<rparr>"
  let ?B = "\<lparr>site_name = StrVal ''B'', units = StrVal ''abc'', start_period = StrVal ''2026-03''\<rparr>"
  let ?D = "\<lparr>site_name = StrVal ''D'', units = IntVal 100, start_period = StrVal ''2026-02''\<rparr>"
  have t: "try_site pandas_strict 10 [50, 100] ?B = Inl ValueError"
    by (simp add: row_eval)
  have a: "calc pandas_strict 10 [50, 100] [?A] = [[((2026, 3), 2500), ((2026, 4), 5000)]]"
    by (simp add: row_eval)
  have d: "calc pandas_strict 10 [50, 100] [?D] = [[((2026, 2), 500), ((2026, 3), 1000)]]"
    by (simp add: row_eval)
  have n: "new_df pandas_strict 10 [50, 100] ([?A] @ [?D]) =
      Inr (Some [((2026, 2), 500), ((2026, 3), 3500), ((2026, 4), 5000)])"
  proof -
    have c: "calc pandas_strict 10 [50, 100] [?A, ?D] =
        [[((2026, 3), 2500), ((2026, 4), 5000)], [((2026, 2), 500), ((2026, 3), 1000)]]"
      using calc_Cons [of pandas_strict 10 "[50, 100]" ?A "[?D]"] a d by simp
    have g: "groupby_sum [((2026, 3), 2500), ((2026, 4), 5000), ((2026, 2), 500), ((2026, 3), 1000)]
        = [((2026, 2), 500), ((2026, 3), 3500), ((2026, 4), 5000)]"
      by code_simp
    show ?thesis by (simp add: new_df_def Let_def c g)
  qed
  from calc_skips_malformed [of pandas_strict 10 "[50, 100]" "[]" ?B ValueError "[?A]" "[?D]"] t
  have "calc pandas_strict 10 [50, 100] ([?A] @ ?B # [?D]) =
          calc pandas_strict 10 [50, 100] [?A] @ calc pandas_strict 10 [50, 100] [?D]"
    and "new_df pandas_strict 10 [50, 100] ([?A] @ ?B # [?D]) =
          new_df pandas_strict 10 [50, 100] ([?A] @ [?D])"
    by blast+
  with t a d n show ?thesis by simp
qed









text \<open>
  Claim C8. The rows of \<open>new_df\<close> are in ascending order of their time stamps, and no
  time stamp occurs twice; and \<open>new_df\<close> is produced whenever the ramp has an entry and
  some row was projected.
\<close>

theorem new_df_sorted:
  "(new_df L avg ramp sites = Inr (Some df) \<longrightarrow>
      sorted (map fst df) \<and> distinct (map fst df)) \<and>
   (ramp \<noteq> [] \<longrightarrow> calc L avg ramp sites \<noteq> [] \<longrightarrow>
      (\<exists>df'. new_df L avg ramp sites = Inr (Some df')))"
  using new_df_sorted_keys [of L avg ramp sites df] new_df_some [of ramp L avg sites]
  by blast

text \<open>
  An instance: the later site comes first in the table, and the aggregate crosses the
  end of the year.
\<close>

theorem new_df_sorted_witness:
  "new_df pandas_strict 30 [30, 60, 85, 100]
     [\<lparr>site_name = StrVal ''A'', units = IntVal 500, start_period = StrVal ''2026-11''\<rparr>,
      \<lparr>site_name = StrVal ''D'', units = IntVal 100, start_period = StrVal ''2026-10''\<rparr>]
   = Inr (Some [((2026, 10), 900), ((2026, 11), 6300), ((2026, 12), 11550), ((2027, 1), 15750),
        ((2027, 2), 15000)]) \<and>
   sorted (map fst [((2026 :: int, 10 :: int), 900 :: real), ((2026, 11), 6300),
      ((2026, 12), 11550), ((2027, 1), 15750), ((2027, 2), 15000)]) \<and>
   distinct (map fst [((2026 :: int, 10 :: int), 900 :: real), ((2026, 11), 6300),
      ((2026, 12), 11550), ((2027, 1), 15750), ((2027, 2), 15000)])"
proof -
  let ?A = "\<lparr>site_name = StrVal ''A'', units = IntVal 500, start_period = StrVal ''2026-11''\<rparr>"
  let ?D = "\<lparr>site_name = StrVal ''D'', units = IntVal 100, start_period = StrVal ''2026-10''\<rparr>"
  have c: "calc pandas_strict 30 [30, 60, 85, 100] [?A, ?D] =
      [[((2026, 11), 4500), ((2026, 12), 9000), ((2027, 1), 12750), ((2027, 2), 15000)],
       [((2026, 10), 900), ((2026, 11), 1800), ((2026, 12), 2550), ((2027, 1), 3000)]]"
    by (simp add: row_eval)
  have g: "groupby_sum [((2026, 11), 4500), ((2026, 12), 9000), ((2027, 1), 12750),
        ((2027, 2), 15000), ((2026, 10), 900), ((2026, 11), 1800), ((2026, 12), 2550),
        ((2027, 1), 3000)]
      = [((2026, 10), 900), ((2026, 11), 6300), ((2026, 12), 11550), ((2027, 1), 15750),
        ((2027, 2), 15000)]"
    by code_simp
  have n: "new_df pandas_strict 30 [30, 60, 85, 100] [?A, ?D] =
      Inr (Some [((2026, 10), 900), ((2026, 11), 6300), ((2026, 12), 11550), ((2027, 1), 15750),
        ((2027, 2), 15000)])"
    by (simp add: new_df_def Let_def c g)
  from new_df_sorted [of pandas_strict 30 "[30, 60, 85, 100]" "[?A, ?D]"
      "[((2026, 10), 900), ((2026, 11), 6300), ((2026, 12), 11550), ((2027, 1), 15750),
        ((2027, 2), 15000)]"] n
  show ?thesis by blast
qed



text \<open>
  Claim C10. A row in which any of the three cells is missing, the name included, is
  removed by \<open>dropna\<close> before its projection is tried: alone it contributes no frame,
  and removing it from a table changes neither \<open>calc\<close> nor \<open>new_df\<close>, even when its
  household count and start month would project.
\<close>

theorem missing_field_dropped:
  "site_name r = NaN \<or> units r = NaN \<or> start_period r = NaN \<Longrightarrow>
   calc L avg ramp [r] = [] \<and>
   calc L avg ramp (xs @ r # ys) = calc L avg ramp xs @ calc L avg ramp ys \<and>
   new_df L avg ramp (xs @ r # ys) = new_df L avg ramp (xs @ ys)"
proof -
  assume "site_name r = NaN \<or> units r = NaN \<or> start_period r = NaN"
  then have e: "calc L avg ramp [r] = []" by (rule calc_single_missing)
  from calc_drop_row(1) [OF e] calc_drop_row(3) [OF e] e show ?thesis by blast
qed

text \<open>
  An instance: a row with no name whose other cells project well.
\<close>

theorem missing_field_dropped_witness:
  "site_name \<lparr>site_name = NaN, units = IntVal 500, start_period = StrVal ''2026-03''\<rparr> = NaN \<and>
   try_site pandas_strict 10 [50, 100]
     \<lparr>site_name = NaN, units = IntVal 500, start_period = StrVal ''2026-03''\<rparr>
     = Inr [((2026, 3), 2500), ((2026, 4), 5000)] \<and>
   calc pandas_strict 10 [50, 100]
     [\<lparr>site_name = NaN, units = IntVal 500, start_period = StrVal ''2026-03''\<rparr>] = [] \<and>
   calc pandas_strict 10 [50, 100]
     [\<lparr>site_name = NaN, units = IntVal 500, start_period = StrVal ''2026-03''\<rparr>,
      \<lparr>site_name = StrVal ''D'', units = IntVal 100, start_period = StrVal ''2026-02''\<rparr>]
     = [[((2026, 2), 500), ((2026, 3), 1000)]] \<and>
   new_df pandas_strict 10 [50, 100]
     [\<lparr>site_name = NaN, units = IntVal 500, start_period = StrVal ''2026-03''\<rparr>,
      \<lparr>site_name = StrVal ''D'', units = IntVal 100, start_period = StrVal ''2026-02''\<rparr>]
     = new_df pandas_strict 10 [50, 100]
     [\<lparr>site_name = StrVal ''D'', units = IntVal 100, start_period = StrVal ''2026-02''\<rparr>]"
proof -
  let ?N = "\<lparr>site_name = NaN, units = IntVal 500, start_period = StrVal ''2026-03''\<rparr>"
  let ?D = "\<lparr>site_name = StrVal ''D'', units = IntVal 100, start_period = StrVal ''2026-02''\<rparr>"
  have t: "try_site pandas_strict 10 [50, 100] ?N = Inr [((2026, 3), 2500), ((2026, 4), 5000)]"
    by (simp add: row_eval)
  have d: "calc pandas_strict 10 [50, 100] [?D] = [[((2026, 2), 500), ((2026, 3), 1000)]]"
    by (simp add: row_eval)
  have e: "calc pandas_strict 10 [50, 100] [] = []"
    by (simp add: row_eval)
  from missing_field_dropped [of ?N pandas_strict 10 "[50, 100]" "[]" "[?D]"]
  have "calc pandas_strict 10 [50, 100] [?N] = []"
    and "calc pandas_strict 10 [50, 100] ([] @ ?N # [?D]) =
      calc pandas_strict 10 [50, 100] [] @ calc pandas_strict 10 [50, 100] [?D]"
    and "new_df pandas_strict 10 [50, 100] ([] @ ?N # [?D]) =
      new_df pandas_strict 10 [50, 100] ([] @ [?D])"
    by simp_all
  with t d e show ?thesis by simp
qed

end
